theory Spec2Isabelle
  imports Complex_Main "HOL-Library.Sublist"
begin

section \<open>Python values and exceptions\<close>

text \<open>
  The values that \<^verbatim>\<open>ast.literal_eval\<close> can hand to the program. Python's int and
  float are read as the (finite) real number they denote; a dict is the association
  list of its evaluated entries (keys distinct).
\<close>

datatype pyval =
    PNum real
  | PStr string
  | PNone
  | PBool bool
  | PSeq "pyval list"
  | PSet "pyval list"
  | PDict "(pyval \<times> pyval) list"

datatype pyerr =
    SyntaxError
  | ValueError
  | KeyError
  | TypeError
  | IndexError
  | AttributeError
  | FileNotFoundError
  | PermissionError

text \<open>\<^verbatim>\<open>line.startswith(p)\<close>\<close>

definition startswith :: "string \<Rightarrow> string \<Rightarrow> bool" where
  "startswith line p = prefix p line"

text \<open>
  \<^verbatim>\<open>d[k]\<close> for a \<^verbatim>\<open>str\<close> key \<open>k\<close>: a dict is looked up (KeyError when the key
  is absent); every other value \<^verbatim>\<open>literal_eval\<close> returns rejects a string subscript
  with TypeError.
\<close>

fun getitem :: "pyval \<Rightarrow> string \<Rightarrow> pyerr + pyval" where
  "getitem (PDict kvs) k =
     (case map_of kvs (PStr k) of None \<Rightarrow> Inl KeyError | Some v \<Rightarrow> Inr v)"
| "getitem _ k = Inl TypeError"

section \<open>DataSource: the log tailer\<close>

type_synonym handle = nat

record DataSource =
  fname :: pyval
  logs :: "pyval list list option"
  running :: bool
  "file" :: "handle option"
  Nruns :: nat

text \<open>\<^verbatim>\<open>DataSource.__init__\<close>\<close>

definition DataSource_init :: "pyval \<Rightarrow> DataSource" where
  "DataSource_init name =
     \<lparr>fname = name, logs = None, running = False, file = None, Nruns = 0\<rparr>"

text \<open>
  What the operating system answers during one iteration of the polling loop: the link
  count \<^verbatim>\<open>os.fstat(self.file.fileno()).st_nlink\<close>, the result of
  \<^verbatim>\<open>self.file.readline()\<close> (the empty string at end of data), and the outcome of
  \<^verbatim>\<open>open(self.fname, "r")\<close>. Only the answer to the call the iteration makes is
  consulted.
\<close>

record os_view =
  st_nlink :: nat
  readline :: string
  open_result :: "pyerr + handle"

text \<open>
  \<^verbatim>\<open>self.logs[-1]\<close>: the subscript fails with TypeError on None and with IndexError
  on the empty list.
\<close>

fun last_run :: "pyval list list option \<Rightarrow> pyerr + pyval list" where
  "last_run None = Inl TypeError"
| "last_run (Some []) = Inl IndexError"
| "last_run (Some (r # rs)) = Inr (last (r # rs))"

text \<open>\<^verbatim>\<open>self.logs.append([])\<close>: None has no attribute \<^verbatim>\<open>append\<close>.\<close>

fun append_run :: "pyval list list option \<Rightarrow> pyerr + pyval list list" where
  "append_run None = Inl AttributeError"
| "append_run (Some rs) = Inr (rs @ [[]])"

text \<open>
  Lines 54--61: what the loop does with the string \<^verbatim>\<open>readline\<close> returned. The result
  carries the number of \<^verbatim>\<open>time.sleep(0.1)\<close> calls made. \<^verbatim>\<open>ast.literal_eval\<close> is
  Python's library function and a parameter here. In line 59 Python evaluates
  \<^verbatim>\<open>self.logs[-1]\<close> before the argument \<^verbatim>\<open>d["energy"]\<close>; the value found is
  appended to the last run in place, whatever its type.
\<close>

definition handle_line ::
  "(string \<Rightarrow> pyerr + pyval) \<Rightarrow> string \<Rightarrow> DataSource \<Rightarrow> pyerr + (DataSource \<times> nat)" where
  "handle_line literal_eval line s =
     (if line = [] then Inr (s, 1)
      else if startswith line ''{'' then
        (case literal_eval line of
           Inl e \<Rightarrow> Inl e
         | Inr d \<Rightarrow>
             (case last_run (logs s) of
                Inl e \<Rightarrow> Inl e
              | Inr r \<Rightarrow>
                  (case getitem d ''energy'' of
                     Inl e \<Rightarrow> Inl e
                   | Inr v \<Rightarrow>
                       Inr (s\<lparr>logs := map_option (\<lambda>rs. butlast rs @ [r @ [v]]) (logs s)\<rparr>, 0))))
      else if startswith line ''#'' then
        (case append_run (logs s) of
           Inl e \<Rightarrow> Inl e
         | Inr l \<Rightarrow> Inr (s\<lparr>logs := Some l\<rparr>, 0))
      else Inr (s, 0))"

text \<open>
  One iteration of the \<^verbatim>\<open>while self.running\<close> loop of \<^verbatim>\<open>DataSource.run\<close>
  (lines 49--68). Only FileNotFoundError is caught around \<^verbatim>\<open>open\<close>; every other
  exception leaves the loop, which ends the thread.
\<close>

definition run_iteration ::
  "(string \<Rightarrow> pyerr + pyval) \<Rightarrow> os_view \<Rightarrow> DataSource \<Rightarrow> pyerr + (DataSource \<times> nat)" where
  "run_iteration literal_eval w s =
     (case file s of
        Some f \<Rightarrow>
          if st_nlink w = 0 then Inr (s\<lparr>file := None\<rparr>, 0)
          else handle_line literal_eval (readline w) s
      | None \<Rightarrow>
          (case open_result w of
             Inr f \<Rightarrow> Inr (s\<lparr>file := Some f, logs := Some [[]]\<rparr>, 0)
           | Inl e \<Rightarrow> if e = FileNotFoundError then Inr (s, 1) else Inl e))"

text \<open>
  The loop itself, over the answers of the operating system to its successive
  iterations. It stops when the liveness flag is found cleared or an exception escapes;
  when the answers run out the loop is still polling, and the state reached is returned
  with the pauses made so far.
\<close>

datatype loop_result =
    Raised pyerr DataSource
  | Exited DataSource nat
  | Polling DataSource nat

fun run_loop ::
  "(string \<Rightarrow> pyerr + pyval) \<Rightarrow> os_view list \<Rightarrow> DataSource \<Rightarrow> nat \<Rightarrow> loop_result" where
  "run_loop literal_eval [] s n = (if running s then Polling s n else Exited s n)"
| "run_loop literal_eval (w # ws) s n =
     (if running s then
        (case run_iteration literal_eval w s of
           Inl e \<Rightarrow> Raised e s
         | Inr (s', k) \<Rightarrow> run_loop literal_eval ws s' (n + k))
      else Exited s n)"

text \<open>\<^verbatim>\<open>DataSource.run\<close>\<close>

definition run :: "(string \<Rightarrow> pyerr + pyval) \<Rightarrow> os_view list \<Rightarrow> DataSource \<Rightarrow> loop_result" where
  "run literal_eval ws s = run_loop literal_eval ws (s\<lparr>running := True\<rparr>) 0"

section \<open>CURSESDisplay: the renderer\<close>

text \<open>
  The renderer reads \<^verbatim>\<open>self.data.logs\<close>. It is modelled on one snapshot of the run
  list per call, with numeric samples: a run is a list of reals.
\<close>

record CURSESDisplay =
  running :: bool
  numerical_markers :: bool
  color :: bool

text \<open>\<^verbatim>\<open>CURSESDisplay.__init__\<close>\<close>

definition CURSESDisplay_init :: CURSESDisplay where
  "CURSESDisplay_init = \<lparr>running = False, numerical_markers = True, color = False\<rparr>"

text \<open>Python's \<^verbatim>\<open>min\<close> and \<^verbatim>\<open>max\<close> of a list: ValueError on the empty list.\<close>

fun py_min :: "real list \<Rightarrow> pyerr + real" where
  "py_min [] = Inl ValueError"
| "py_min (x # xs) = Inr (fold min xs x)"

fun py_max :: "real list \<Rightarrow> pyerr + real" where
  "py_max [] = Inl ValueError"
| "py_max (x # xs) = Inr (fold max xs x)"

text \<open>
  \<^verbatim>\<open>numpy.mean\<close> and \<^verbatim>\<open>numpy.std\<close> as numpy documents them (the average of the
  elements; the square root of the average of the squared deviations from the mean,
  with no degrees-of-freedom correction), in exact arithmetic.
\<close>

definition np_mean :: "real list \<Rightarrow> real" where
  "np_mean xs = sum_list xs / real (length xs)"

definition np_std :: "real list \<Rightarrow> real" where
  "np_std xs = sqrt (np_mean (map (\<lambda>x. (x - np_mean xs)\<^sup>2) xs))"

text \<open>
  What \<^verbatim>\<open>draw_stats\<close> writes to the window: the placeholder string, or the four
  arguments of \<^verbatim>\<open>stats_format.format\<close>.
\<close>

datatype stat = Computed real | Text string

datatype stats_window =
    Message string
  | Stats (nruns: int) (mine: real) (mean: stat) (var: stat)

text \<open>The \<^verbatim>\<open>for i, log in enumerate(self.data.logs)\<close> loop of lines 115--119.\<close>

fun stats_loop ::
  "nat \<Rightarrow> real list list \<Rightarrow> nat \<Rightarrow> real \<times> real list \<Rightarrow> pyerr + (real \<times> real list)" where
  "stats_loop len [] i (min', final_es) = Inr (min', final_es)"
| "stats_loop len (log' # rest) i (min', final_es) =
     (case (if log' \<noteq> [] then map_sum id (min min') (py_min log') else Inr min') of
        Inl e \<Rightarrow> Inl e
      | Inr min1 \<Rightarrow>
          (case (if log' \<noteq> [] \<and> int i \<noteq> int len - 1
                 then map_sum id (\<lambda>m. final_es @ [m]) (py_min log') else Inr final_es) of
             Inl e \<Rightarrow> Inl e
           | Inr final1 \<Rightarrow> stats_loop len rest (Suc i) (min1, final1)))"

text \<open>\<^verbatim>\<open>draw_stats\<close> (lines 109--128); None and the empty list are both falsy.\<close>

definition draw_stats :: "real list list option \<Rightarrow> pyerr + stats_window" where
  "draw_stats data_logs =
     (case data_logs of
        None \<Rightarrow> Inr (Message ''No data yet!'')
      | Some ls \<Rightarrow>
          if ls \<noteq> [] then
            (case stats_loop (length ls) ls 0 (0, []) of
               Inl e \<Rightarrow> Inl e
             | Inr (min', final_es) \<Rightarrow>
                 Inr (Stats (int (length ls) - 1) min'
                       (if length final_es > 1 then Computed (np_mean final_es)
                        else Text ''Insufficent data'')
                       (if length final_es > 1 then Computed (np_std final_es)
                        else Text ''Insufficent data'')))
          else Inr (Message ''No data yet!''))"

text \<open>\<^verbatim>\<open>str(i)\<close> for a non-negative integer: its decimal digits.\<close>

fun str :: "nat \<Rightarrow> string" where
  "str n = (if n < 10 then [''0123456789'' ! n]
            else str (n div 10) @ [''0123456789'' ! (n mod 10)])"

declare str.simps [simp del]

text \<open>
  \<^verbatim>\<open>Colors\<close>: the style list built by the three nested loops of its constructor, and
  the reset sequence \<^verbatim>\<open>end\<close>.
\<close>

definition Colors_styles :: "string list" where
  "Colors_styles =
     concat (map (\<lambda>style. concat (map (\<lambda>fg. map (\<lambda>bg.
       str style @ '';'' @ str fg @ '';'' @ str bg) [40..<48]) [30..<38])) [0..<8])"

definition Colors_end :: string where
  "Colors_end = CHR 0x1B # ''[0m''"

text \<open>
  \<^verbatim>\<open>getmarker\<close> (lines 131--137), given the length of the run list. The index into
  \<^verbatim>\<open>styles\<close> is below its length \<^verbatim>\<open>N\<close>.
\<close>

definition getmarker :: "CURSESDisplay \<Rightarrow> nat \<Rightarrow> nat \<Rightarrow> string" where
  "getmarker r len i =
     (let marker = (if int i = int len - 1 then ''_,''
                    else if numerical_markers r then str i
                    else ''_.'')
      in if color r
         then Colors_styles ! (i mod length Colors_styles) @ marker @ Colors_end
         else marker)"

text \<open>
  A series handed to \<^verbatim>\<open>p.plot\<close>: the x values \<^verbatim>\<open>np.arange(len(log))\<close>, the y values
  and the marker.
\<close>

type_synonym series = "nat list \<times> real list \<times> string"

text \<open>
  The \<^verbatim>\<open>for\<close> loop of \<^verbatim>\<open>draw_graphs\<close> (lines 150--157): the series plotted so far
  and the running bounds.
\<close>

fun graphs_loop ::
  "CURSESDisplay \<Rightarrow> nat \<Rightarrow> real list list \<Rightarrow> nat \<Rightarrow> series list \<times> real \<times> real \<Rightarrow>
   pyerr + (series list \<times> real \<times> real)" where
  "graphs_loop r len [] i acc = Inr acc"
| "graphs_loop r len (log' # rest) i (plots, min', max') =
     (if length log' < 1 then graphs_loop r len rest (Suc i) (plots, min', max')
      else
        (case py_min log' of
           Inl e \<Rightarrow> Inl e
         | Inr lo \<Rightarrow>
             (case py_max log' of
                Inl e \<Rightarrow> Inl e
              | Inr hi \<Rightarrow>
                  graphs_loop r len rest (Suc i)
                    (plots @ [([0..<length log'], log', getmarker r len i)],
                     min min' lo, max max' hi))))"

text \<open>
  \<^verbatim>\<open>draw_graphs\<close> (lines 147--159): nothing is drawn on a falsy run list; otherwise
  the result is the plotted series and the pair handed to \<^verbatim>\<open>p.ylim\<close>. The float
  literals are read as the decimals written.
\<close>

definition draw_graphs ::
  "CURSESDisplay \<Rightarrow> real list list option \<Rightarrow> pyerr + (series list \<times> real \<times> real) option" where
  "draw_graphs r data_logs =
     (case data_logs of
        None \<Rightarrow> Inr None
      | Some ls \<Rightarrow>
          if ls \<noteq> [] then map_sum id Some (graphs_loop r (length ls) ls 0 ([], - 1.7, - 1.6))
          else Inr None)"








section \<open>The controller\<close>

text \<open>
  The script body (lines 259--281) as the sequence of its effects. \<^verbatim>\<open>get_fname\<close> asks
  an external job manager; its outcome is a parameter, consulted only when no path was
  given on the command line.
\<close>

datatype effect =
    Print string
  | SysExit int
  | CallGetFname
  | NewDataSource pyval
  | NewCURSESDisplay
  | StartData
  | StartUI
  | InstallSigint
  | JoinUI
  | ClearDataRunning
  | JoinData

definition script :: "bool \<Rightarrow> string list \<Rightarrow> pyerr + pyval \<Rightarrow> pyerr + effect list" where
  "script stdin_isatty argv get_fname =
     (if \<not> stdin_isatty then Inr [Print ''please run interactively.'', SysExit 1]
      else
        (case (if length argv > 1 then Inr ([], PStr (argv ! 1))
               else map_sum id (\<lambda>p. ([CallGetFname], p)) get_fname) of
           Inl e \<Rightarrow> Inl e
         | Inr (pre, name) \<Rightarrow>
             Inr (pre @ [NewDataSource name, NewCURSESDisplay, StartData, StartUI,
                         InstallSigint, JoinUI, ClearDataRunning, JoinData])))"

section \<open>The run list as the specification describes it\<close>

text \<open>
  The specification's words for run segmentation, to be compared with the loop above:
  the lines are cut at the marker lines (those beginning with \<^verbatim>\<open>#\<close>), which gives one
  segment before the first marker and one after each marker; each run holds, in order,
  the energies of the observation lines (those beginning with \<^verbatim>\<open>{\<close>) of its segment.
  An observation line carries the energy \<open>x\<close> when it evaluates to a mapping whose
  \<^verbatim>\<open>energy\<close> entry is the number \<open>x\<close>.
\<close>

fun spec_segments :: "string list \<Rightarrow> string list list" where
  "spec_segments [] = [[]]"
| "spec_segments (l # ls) =
     (if startswith l ''#'' then [] # spec_segments ls
      else (case spec_segments ls of [] \<Rightarrow> [[l]] | seg # segs \<Rightarrow> (l # seg) # segs))"

definition spec_energy :: "(string \<Rightarrow> pyerr + pyval) \<Rightarrow> string \<Rightarrow> real option" where
  "spec_energy literal_eval line =
     (case literal_eval line of
        Inr (PDict kvs) \<Rightarrow>
          (case map_of kvs (PStr ''energy'') of Some (PNum x) \<Rightarrow> Some x | _ \<Rightarrow> None)
      | _ \<Rightarrow> None)"

definition spec_run_list :: "(string \<Rightarrow> pyerr + pyval) \<Rightarrow> string list \<Rightarrow> real list list" where
  "spec_run_list literal_eval lines =
     map (List.map_filter (\<lambda>l. if startswith l ''{'' then spec_energy literal_eval l else None))
       (spec_segments lines)"

text \<open>
  The statistics as the specification describes them: the finished runs are all runs but
  the last, and \<open>finished_minima\<close> lists, in order, the minimum of each finished run
  that has a sample.
\<close>

definition finished_minima :: "real list list \<Rightarrow> real list" where
  "finished_minima ls = map (\<lambda>l. Min (set l)) (filter (\<lambda>l. l \<noteq> []) (butlast ls))"

section \<open>Sample data\<close>

text \<open>
  Concrete inputs on which the model is run below. \<^verbatim>\<open>ast.literal_eval\<close> stays a
  parameter of the model; \<open>sample_literal_eval\<close> gives its value on the few lines used
  (each ends with the newline \<^verbatim>\<open>readline\<close> returns) and answers any other text with
  SyntaxError, as Python does for \<^verbatim>\<open>{oops\<close>.
\<close>

definition sample_literal_eval :: "string \<Rightarrow> pyerr + pyval" where
  \<open>sample_literal_eval line =
     (if line = ''{"energy": -1.0}'' @ [CHR 0x0A] then Inr (PDict [(PStr ''energy'', PNum (- 1.0))])
      else if line = ''{"energy": -1.5}'' @ [CHR 0x0A] then Inr (PDict [(PStr ''energy'', PNum (- 1.5))])
      else if line = ''{"energy": -0.9}'' @ [CHR 0x0A] then Inr (PDict [(PStr ''energy'', PNum (- 0.9))])
      else if line = ''{"energy": 1.0}'' @ [CHR 0x0A] then Inr (PDict [(PStr ''energy'', PNum 1.0)])
      else if line = ''{"iteration": 3}'' @ [CHR 0x0A] then Inr (PDict [(PStr ''iteration'', PNum 3)])
      else Inl SyntaxError)\<close>

definition linked_line :: "string \<Rightarrow> os_view" where
  "linked_line line = \<lparr>st_nlink = 1, readline = line, open_result = Inr 4\<rparr>"

definition opened :: DataSource where
  "opened = \<lparr>fname = PStr ''vqe_stream.json'', logs = Some [[]], running = True,
     file = Some 3, Nruns = 0\<rparr>"

section \<open>Properties of the tailer\<close>

lemma spec_segments_ne: "spec_segments ls \<noteq> []"
  by (induction ls) (auto split: list.splits)

lemma spec_segments_snoc:
  "spec_segments (ls @ [l]) =
     (if startswith l ''#'' then spec_segments ls @ [[]]
      else butlast (spec_segments ls) @ [last (spec_segments ls) @ [l]])"
  by (induction ls) (auto split: list.splits simp: spec_segments_ne)

lemma spec_segments_length:
  "length (spec_segments ls) = Suc (length (filter (\<lambda>l. startswith l ''#'') ls))"
  by (induction ls) (auto split: list.splits simp: spec_segments_ne)

lemma spec_run_list_ne: "spec_run_list lit ls \<noteq> []"
  by (simp add: spec_run_list_def spec_segments_ne)

lemma startswith_brace_hash: "startswith l ''{'' \<Longrightarrow> \<not> startswith l ''#''"
  by (cases l) (auto simp: startswith_def)

lemma spec_run_list_snoc:
  "spec_run_list lit (ls @ [l]) =
     (if startswith l ''#'' then spec_run_list lit ls @ [[]]
      else if startswith l ''{'' then
        (case spec_energy lit l of
           Some x \<Rightarrow> butlast (spec_run_list lit ls) @ [last (spec_run_list lit ls) @ [x]]
         | None \<Rightarrow> spec_run_list lit ls)
      else spec_run_list lit ls)"
proof -
  define g where "g = List.map_filter (\<lambda>l. if startswith l ''{'' then spec_energy lit l else None)"
  define S where "S = spec_segments ls"
  have ne: "S \<noteq> []" by (simp add: S_def spec_segments_ne)
  have R: "spec_run_list lit ls = map g S"
    by (simp add: spec_run_list_def g_def S_def)
  have gl: "g (xs @ [l]) =
      (if startswith l ''{'' then (case spec_energy lit l of Some x \<Rightarrow> g xs @ [x] | None \<Rightarrow> g xs)
       else g xs)" for xs
    by (auto simp: g_def List.map_filter_def split: option.splits)
  have bl: "butlast (map g S) @ [last (map g S)] = map g S"
    using ne by simp
  have g0: "g [] = []" by (simp add: g_def)
  show ?thesis
  proof (cases "startswith l ''#''")
    case True
    then show ?thesis
      by (simp add: spec_run_list_def spec_segments_snoc g_def [symmetric] S_def [symmetric] g0)
  next
    case False
    have "spec_run_list lit (ls @ [l]) = butlast (map g S) @ [g (last S @ [l])]"
      using False
      by (simp add: spec_run_list_def spec_segments_snoc g_def [symmetric] S_def [symmetric]
          map_butlast)
    also have "g (last S @ [l]) =
      (if startswith l ''{'' then (case spec_energy lit l of Some x \<Rightarrow> last (map g S) @ [x] | None \<Rightarrow> last (map g S))
       else last (map g S))"
      using ne by (simp add: gl last_map split: option.splits)
    finally show ?thesis
      using False bl by (simp add: R split: option.splits)
  qed
qed

lemma run_loop_snoc:
  "run_loop lit (ws @ [w]) s n =
     (case run_loop lit ws s n of Polling s' n' \<Rightarrow> run_loop lit [w] s' n' | r \<Rightarrow> r)"
  by (induction ws arbitrary: s n) (auto split: sum.splits prod.splits loop_result.splits)

lemma spec_energy_SomeD:
  "spec_energy lit l = Some x \<Longrightarrow>
   \<exists>kvs. lit l = Inr (PDict kvs) \<and> map_of kvs (PStr ''energy'') = Some (PNum x)"
  by (auto simp: spec_energy_def split: sum.splits pyval.splits option.splits)

lemma handle_line_step:
  assumes "logs s = Some (map (map PNum) R)" "R \<noteq> []" "line \<noteq> []"
    and "startswith line ''{'' \<longrightarrow> spec_energy lit line \<noteq> None"
  shows "handle_line lit line s =
     Inr (s\<lparr>logs := Some (map (map PNum)
        (if startswith line ''#'' then R @ [[]]
         else if startswith line ''{'' then
           (case spec_energy lit line of
              Some x \<Rightarrow> butlast R @ [last R @ [x]] | None \<Rightarrow> R)
         else R))\<rparr>, 0)"
proof (cases "startswith line ''{''")
  case True
  then obtain x where x: "spec_energy lit line = Some x" using assms(4) by auto
  from spec_energy_SomeD [OF x] obtain kvs where
    k: "lit line = Inr (PDict kvs)" "map_of kvs (PStr ''energy'') = Some (PNum x)" by auto
  obtain r rs where R: "map (map PNum) R = r # rs" using assms(2) by (cases R) auto
  have lr: "last_run (logs s) = Inr (last (map (map PNum) R))"
    using assms(1) R by simp
  show ?thesis
    using True assms(1,2,3) k x lr startswith_brace_hash [OF True]
    by (simp add: handle_line_def map_butlast last_map)
next
  case False
  then show ?thesis
    using assms(1,3) by (auto simp: handle_line_def)
qed


text \<open>
  C1 (run segmentation), as the code has it: after a successful open (handle held, run
  list \<open>[[]]\<close>, flag set), when the loop reads a sequence of lines from a still-linked
  file in which every line beginning with \<^verbatim>\<open>{\<close> is a mapping with a numeric energy,
  the run list it reaches is the one the specification describes: one run more than there
  are marker lines, each run holding in order the energies of the observation lines of
  its segment. A line with any other prefix leaves the whole state unchanged.
\<close>

theorem run_segmentation:
  assumes "file s = Some f" and "logs s = Some [[]]" and "DataSource.running s"
    and "\<forall>w\<in>set ws. st_nlink w \<noteq> 0 \<and> readline w \<noteq> []"
    and "\<forall>w\<in>set ws. startswith (readline w) ''{'' \<longrightarrow>
           spec_energy literal_eval (readline w) \<noteq> None"
  shows "run_loop literal_eval ws s n =
           Polling (s\<lparr>logs := Some (map (map PNum)
             (spec_run_list literal_eval (map readline ws)))\<rparr>) n
         \<and> length (spec_run_list literal_eval (map readline ws)) =
             Suc (length (filter (\<lambda>l. startswith l ''#'') (map readline ws)))
         \<and> (\<forall>line t. \<not> startswith line ''{'' \<and> \<not> startswith line ''#'' \<longrightarrow>
               (\<exists>k. handle_line literal_eval line t = Inr (t, k)))"
proof -
  have loop: "run_loop literal_eval ws s n =
           Polling (s\<lparr>logs := Some (map (map PNum)
             (spec_run_list literal_eval (map readline ws)))\<rparr>) n"
    using assms(4,5)
  proof (induction ws rule: rev_induct)
    case Nil
    have "s\<lparr>logs := Some [[]]\<rparr> = s" using assms(2) by simp
    then show ?case
      using assms(3) by (simp add: spec_run_list_def List.map_filter_def)
  next
    case (snoc w ws)
    define R where "R = spec_run_list literal_eval (map readline ws)"
    define t where "t = s\<lparr>logs := Some (map (map PNum) R)\<rparr>"
    have prev: "run_loop literal_eval ws s n = Polling t n"
      using snoc by (simp add: R_def t_def)
    have t: "file t = Some f" "DataSource.running t" "logs t = Some (map (map PNum) R)"
      using assms(1,3) by (simp_all add: t_def)
    have w: "st_nlink w \<noteq> 0" "readline w \<noteq> []"
      "startswith (readline w) ''{'' \<longrightarrow> spec_energy literal_eval (readline w) \<noteq> None"
      using snoc.prems by simp_all
    have Rne: "R \<noteq> []" by (simp add: R_def spec_run_list_ne)
    have it: "run_iteration literal_eval w t = handle_line literal_eval (readline w) t"
      using t(1) w(1) by (simp add: run_iteration_def)
    have "run_loop literal_eval (ws @ [w]) s n = run_loop literal_eval [w] t n"
      by (simp add: run_loop_snoc prev)
    also have "\<dots> = Polling (t\<lparr>logs := Some (map (map PNum)
             (spec_run_list literal_eval (map readline ws @ [readline w])))\<rparr>) n"
      using t(2)
      by (simp add: it handle_line_step [OF t(3) Rne w(2,3)] spec_run_list_snoc
          R_def cong: option.case_cong)
    also have "t\<lparr>logs := Some (map (map PNum)
             (spec_run_list literal_eval (map readline ws @ [readline w])))\<rparr> =
        s\<lparr>logs := Some (map (map PNum)
             (spec_run_list literal_eval (map readline ws @ [readline w])))\<rparr>"
      by (simp add: t_def)
    finally show ?case by simp
  qed
  have len: "length (spec_run_list literal_eval (map readline ws)) =
             Suc (length (filter (\<lambda>l. startswith l ''#'') (map readline ws)))"
    by (simp add: spec_run_list_def spec_segments_length)
  have other: "\<forall>line t. \<not> startswith line ''{'' \<and> \<not> startswith line ''#'' \<longrightarrow>
               (\<exists>k. handle_line literal_eval line t = Inr (t, k))"
    by (simp add: handle_line_def)
  from loop len other show ?thesis by blast
qed

theorem run_segmentation_witness:
  "run_loop sample_literal_eval
     (map linked_line [''#'' @ [CHR 0x0A], ''{\"energy\": -1.0}'' @ [CHR 0x0A],
        ''{\"energy\": -1.5}'' @ [CHR 0x0A], ''#'' @ [CHR 0x0A],
        ''{\"energy\": -0.9}'' @ [CHR 0x0A]]) opened 0 =
   Polling (opened\<lparr>logs := Some [[], [PNum (- 1.0), PNum (- 1.5)], [PNum (- 0.9)]]\<rparr>) 0"
  using run_segmentation [of opened 3
     "map linked_line [''#'' @ [CHR 0x0A], ''{\"energy\": -1.0}'' @ [CHR 0x0A],
        ''{\"energy\": -1.5}'' @ [CHR 0x0A], ''#'' @ [CHR 0x0A],
        ''{\"energy\": -0.9}'' @ [CHR 0x0A]]" sample_literal_eval 0]
  by (simp add: opened_def linked_line_def sample_literal_eval_def spec_energy_def
      spec_run_list_def startswith_def List.map_filter_def)


text \<open>
  The claim as written, for every sequence of lines, fails on the three lines \<^verbatim>\<open>#\<close>,
  \<^verbatim>\<open>{oops\<close>, \<^verbatim>\<open>#\<close>: there are two marker lines, but the loop ends with SyntaxError
  on the second line and the run list stays at two runs, not three.
\<close>

theorem run_segmentation_counterexample:
  "startswith (''#'' @ [CHR 0x0A]) ''#'' \<and>
   \<not> startswith (''{oops'' @ [CHR 0x0A]) ''#'' \<and>
   run_loop sample_literal_eval
     (map linked_line [''#'' @ [CHR 0x0A], ''{oops'' @ [CHR 0x0A], ''#'' @ [CHR 0x0A]])
     opened 0 = Raised SyntaxError (opened\<lparr>logs := Some [[], []]\<rparr>)"
  by (simp add: opened_def linked_line_def sample_literal_eval_def startswith_def
      run_iteration_def handle_line_def)

text \<open>
  C7 (idempotent no-op reads): with an open handle that is still linked, an iteration
  whose \<^verbatim>\<open>readline\<close> returns the empty string leaves the whole tailer state, and so
  the run list, unchanged and makes exactly one 100 ms pause.
\<close>

theorem noop_read_unchanged:
  "file s = Some f \<Longrightarrow> st_nlink w \<noteq> 0 \<Longrightarrow> readline w = [] \<Longrightarrow>
   run_iteration literal_eval w s = Inr (s, 1)"
  by (simp add: run_iteration_def handle_line_def)


theorem noop_read_unchanged_witness:
  "file opened = Some 3 \<and> st_nlink (linked_line []) \<noteq> 0 \<and> readline (linked_line []) = [] \<and>
   run_iteration sample_literal_eval (linked_line []) opened = Inr (opened, 1)"
  using noop_read_unchanged [of opened 3 "linked_line []" sample_literal_eval]
  by (simp add: opened_def linked_line_def)

lemma run_loop_retries:
  assumes "file s = None" "DataSource.running s"
    and "\<forall>w\<in>set retries. open_result w = Inl FileNotFoundError"
  shows "run_loop literal_eval (retries @ ws) s n = run_loop literal_eval ws s (n + length retries)"
  using assms(3)
proof (induction retries arbitrary: n)
  case Nil
  then show ?case by simp
next
  case (Cons w retries)
  have "run_iteration literal_eval w s = Inr (s, 1)"
    using assms(1) Cons.prems by (simp add: run_iteration_def)
  then show ?case
    using assms(2) Cons by simp
qed

text \<open>
  C5 (file-replacement reset): whatever run list the tailer holds, once the link count of
  its handle is found to be zero the handle is dropped, failed attempts to open the path
  only pause, and the next successful open leaves exactly one empty run. In any
  iteration the run list becomes \<open>[[]]\<close> when a fresh handle is opened, and in every
  other iteration it keeps all it held: it is unchanged, or its last run gains one value,
  or it gains one empty run.
\<close>

theorem file_replacement_reset:
  assumes "file s = Some f" and "DataSource.running s" and "st_nlink w0 = 0"
    and "\<forall>w\<in>set retries. open_result w = Inl FileNotFoundError"
    and "open_result w1 = Inr f'"
  shows "run_loop literal_eval (w0 # retries @ [w1]) s n =
           Polling (s\<lparr>file := Some f', logs := Some [[]]\<rparr>) (n + length retries)
         \<and> (\<forall>t w t' k. run_iteration literal_eval w t = Inr (t', k) \<longrightarrow>
              (if file t = None \<and> file t' \<noteq> None then logs t' = Some [[]]
               else logs t' = logs t
                 \<or> (\<exists>rs v. logs t = Some rs \<and> rs \<noteq> [] \<and>
                      logs t' = Some (butlast rs @ [last rs @ [v]]))
                 \<or> (\<exists>rs. logs t = Some rs \<and> logs t' = Some (rs @ [[]]))))"
proof -
  define t where "t = s\<lparr>file := None\<rparr>"
  have t: "file t = None" "DataSource.running t"
    using assms(2) by (simp_all add: t_def)
  have first: "run_iteration literal_eval w0 s = Inr (t, 0)"
    using assms(1,3) by (simp add: run_iteration_def t_def)
  have last: "run_iteration literal_eval w1 t = Inr (t\<lparr>file := Some f', logs := Some [[]]\<rparr>, 0)"
    using t(1) assms(5) by (simp add: run_iteration_def)
  have "run_loop literal_eval (w0 # retries @ [w1]) s n =
        run_loop literal_eval (retries @ [w1]) t n"
    using assms(2) first by simp
  also have "\<dots> = run_loop literal_eval [w1] t (n + length retries)"
    by (rule run_loop_retries [OF t assms(4)])
  also have "\<dots> = Polling (t\<lparr>file := Some f', logs := Some [[]]\<rparr>) (n + length retries)"
    using t(2) last by simp
  also have "t\<lparr>file := Some f', logs := Some [[]]\<rparr> = s\<lparr>file := Some f', logs := Some [[]]\<rparr>"
    by (simp add: t_def)
  finally have seq: "run_loop literal_eval (w0 # retries @ [w1]) s n =
           Polling (s\<lparr>file := Some f', logs := Some [[]]\<rparr>) (n + length retries)" .
  have only: "\<forall>t w t' k. run_iteration literal_eval w t = Inr (t', k) \<longrightarrow>
              (if file t = None \<and> file t' \<noteq> None then logs t' = Some [[]]
               else logs t' = logs t
                 \<or> (\<exists>rs v. logs t = Some rs \<and> rs \<noteq> [] \<and>
                      logs t' = Some (butlast rs @ [last rs @ [v]]))
                 \<or> (\<exists>rs. logs t = Some rs \<and> logs t' = Some (rs @ [[]])))"
  proof (intro allI impI)
    fix t w t' k
    assume it: "run_iteration literal_eval w t = Inr (t', k)"
    show "if file t = None \<and> file t' \<noteq> None then logs t' = Some [[]]
               else logs t' = logs t
                 \<or> (\<exists>rs v. logs t = Some rs \<and> rs \<noteq> [] \<and>
                      logs t' = Some (butlast rs @ [last rs @ [v]]))
                 \<or> (\<exists>rs. logs t = Some rs \<and> logs t' = Some (rs @ [[]]))"
    proof (cases "file t")
      case None
      then show ?thesis
        using it by (auto simp: run_iteration_def split: sum.splits if_splits)
    next
      case (Some h)
      show ?thesis
      proof (cases "st_nlink w = 0")
        case True
        then show ?thesis using it Some by (auto simp: run_iteration_def)
      next
        case False
        then have hl: "handle_line literal_eval (readline w) t = Inr (t', k)"
          using it Some by (simp add: run_iteration_def)
        show ?thesis
        proof (cases "logs t")
          case None
          then show ?thesis
            using hl Some
            by (auto simp: handle_line_def split: if_splits sum.splits)
        next
          case (Some rs)
          then show ?thesis
            using hl \<open>file t = Some h\<close>
            by (cases rs) (auto simp: handle_line_def split: if_splits sum.splits)
        qed
      qed
    qed
  qed
  from seq only show ?thesis by blast
qed

theorem file_replacement_reset_witness:
  "run_loop sample_literal_eval
     [\<lparr>st_nlink = 0, readline = [], open_result = Inl FileNotFoundError\<rparr>,
      \<lparr>st_nlink = 0, readline = [], open_result = Inl FileNotFoundError\<rparr>,
      \<lparr>st_nlink = 1, readline = [], open_result = Inr 5\<rparr>]
     (opened\<lparr>logs := Some [[], [PNum (- 1.0), PNum (- 1.5)], [PNum (- 0.9)]]\<rparr>) 0 =
   Polling (opened\<lparr>file := Some 5, logs := Some [[]]\<rparr>) 1"
  using file_replacement_reset [of
     "opened\<lparr>logs := Some [[], [PNum (- 1.0), PNum (- 1.5)], [PNum (- 0.9)]]\<rparr>" 3
     "\<lparr>st_nlink = 0, readline = [], open_result = Inl FileNotFoundError\<rparr>"
     "[\<lparr>st_nlink = 0, readline = [], open_result = Inl FileNotFoundError\<rparr>]"
     "\<lparr>st_nlink = 1, readline = [], open_result = Inr 5\<rparr>" 5 sample_literal_eval 0]
  by (simp add: opened_def)

text \<open>
  C4 (malformed-line robustness), as the code has it: nothing in the loop catches what
  line 58 or 59 raises. For a line beginning with \<^verbatim>\<open>{\<close> read from a linked handle, an
  exception of \<^verbatim>\<open>literal_eval\<close>, or of the \<^verbatim>\<open>energy\<close> subscript on its value, leaves
  the loop, so the tailer ends with the state it had before the line and reads nothing
  after it; when the value is a mapping with an \<^verbatim>\<open>energy\<close> entry, that entry is
  appended to the last run whatever its type and the loop goes on.
\<close>

theorem malformed_line_raises:
  assumes "file s = Some f" and "DataSource.running s" and "st_nlink w \<noteq> 0"
    and "startswith (readline w) ''{''" and "logs s = Some rs" and "rs \<noteq> []"
  shows "case literal_eval (readline w) of
           Inl e \<Rightarrow> run_loop literal_eval (w # ws) s n = Raised e s
         | Inr d \<Rightarrow>
             (case getitem d ''energy'' of
                Inl e \<Rightarrow> run_loop literal_eval (w # ws) s n = Raised e s
              | Inr v \<Rightarrow>
                  run_loop literal_eval (w # ws) s n =
                    run_loop literal_eval ws (s\<lparr>logs := Some (butlast rs @ [last rs @ [v]])\<rparr>) n)"
proof -
  have ne: "readline w \<noteq> []"
    using assms(4) by (auto simp: startswith_def)
  have it: "run_iteration literal_eval w s = handle_line literal_eval (readline w) s"
    using assms(1,3) by (simp add: run_iteration_def)
  obtain r rs' where rs: "rs = r # rs'"
    using assms(6) by (cases rs) auto
  have lr: "last_run (logs s) = Inr (last rs)"
    using assms(5) rs by simp
  show ?thesis
    using assms(2,4,5) ne lr
    by (simp add: it handle_line_def split: sum.splits)
qed

theorem malformed_line_raises_witness:
  \<open>run_loop sample_literal_eval
     [linked_line (''{"iteration": 3}'' @ [CHR 0x0A]), linked_line (''#'' @ [CHR 0x0A])]
     opened 0 = Raised KeyError opened\<close>
  using malformed_line_raises [of opened 3 \<open>linked_line (''{"iteration": 3}'' @ [CHR 0x0A])\<close>
      "[[]]" sample_literal_eval "[linked_line (''#'' @ [CHR 0x0A])]" 0]
  by (simp add: opened_def linked_line_def sample_literal_eval_def startswith_def)

text \<open>
  The claim as written fails on the line \<^verbatim>\<open>{oops\<close>: it begins with \<^verbatim>\<open>{\<close>, carries no
  energy, and the loop ends with SyntaxError before the marker line after it is read.
\<close>

theorem malformed_line_counterexample:
  "startswith (''{oops'' @ [CHR 0x0A]) ''{'' \<and>
   spec_energy sample_literal_eval (''{oops'' @ [CHR 0x0A]) = None \<and>
   run_loop sample_literal_eval
     [linked_line (''{oops'' @ [CHR 0x0A]), linked_line (''#'' @ [CHR 0x0A])] opened 0
     = Raised SyntaxError opened"
  by (simp add: opened_def linked_line_def sample_literal_eval_def startswith_def
      spec_energy_def run_iteration_def handle_line_def)

section \<open>Properties of the renderer\<close>

lemma fold_min_Min: "fold min xs (a::real) = Min (insert a (set xs))"
  by (metis Min.set_eq_fold list.simps(15))

lemma fold_max_Max: "fold max xs (a::real) = Max (insert a (set xs))"
  by (metis Max.set_eq_fold list.simps(15))

lemma py_min_Min: "xs \<noteq> [] \<Longrightarrow> py_min xs = Inr (Min (set xs))"
  by (cases xs) (simp_all add: fold_min_Min)

lemma py_max_Max: "xs \<noteq> [] \<Longrightarrow> py_max xs = Inr (Max (set xs))"
  by (cases xs) (simp_all add: fold_max_Max)

lemma Min_insert_min:
  fixes m :: real
  assumes "finite A" "finite B" "A \<noteq> {}"
  shows "Min (insert (min m (Min A)) B) = Min (insert m (A \<union> B))"
  using assms
  by (cases "B = {}") (simp_all add: Min_Un min.assoc)

lemma Max_insert_max:
  fixes m :: real
  assumes "finite A" "finite B" "A \<noteq> {}"
  shows "Max (insert (max m (Max A)) B) = Max (insert m (A \<union> B))"
  using assms
  by (cases "B = {}") (simp_all add: Max_Un max.assoc)

lemma stats_loop_eq:
  "i + length ls = len \<Longrightarrow>
   stats_loop len ls i (m, fs) =
     Inr (Min (insert m (set (concat ls))), fs @ finished_minima ls)"
proof (induction ls arbitrary: i m fs)
  case Nil
  then show ?case by (simp add: finished_minima_def)
next
  case (Cons l rest)
  have step: "Suc i + length rest = len" using Cons.prems by simp
  show ?case
  proof (cases "l = []")
    case True
    then show ?thesis
      using Cons.IH [OF step] by (simp add: finished_minima_def)
  next
    case False
    have last: "int i = int len - 1 \<longleftrightarrow> rest = []"
      using Cons.prems by auto
    have mn: "Min (insert (min m (Min (set l))) (set (concat rest))) =
        Min (insert m (set (concat (l # rest))))"
      using False by (simp add: Min_insert_min)
    show ?thesis
      using False Cons.IH [OF step] last mn
      by (simp add: py_min_Min finished_minima_def)
  qed
qed

lemma draw_stats_eq:
  assumes "ls \<noteq> []"
  shows "draw_stats (Some ls) =
     Inr (Stats (int (length ls) - 1) (Min (insert 0 (set (concat ls))))
       (if length (finished_minima ls) > 1 then Computed (np_mean (finished_minima ls))
        else Text ''Insufficent data'')
       (if length (finished_minima ls) > 1 then Computed (np_std (finished_minima ls))
        else Text ''Insufficent data''))"
  using assms by (simp add: draw_stats_def stats_loop_eq)


lemma graphs_loop_eq:
  "graphs_loop r len ls i (plots, lo, hi) =
     Inr (plots @ map (\<lambda>(j, l). ([0..<length l], l, getmarker r len j))
                    (filter (\<lambda>(j, l). l \<noteq> []) (enumerate i ls)),
          Min (insert lo (set (concat ls))), Max (insert hi (set (concat ls))))"
proof (induction ls arbitrary: i plots lo hi)
  case Nil
  then show ?case by simp
next
  case (Cons l rest)
  show ?case
  proof (cases "l = []")
    case True
    then show ?thesis by (simp add: Cons.IH)
  next
    case False
    have mn: "Min (insert (min lo (Min (set l))) (set (concat rest))) =
        Min (insert lo (set (concat (l # rest))))"
      using False by (simp add: Min_insert_min)
    have mx: "Max (insert (max hi (Max (set l))) (set (concat rest))) =
        Max (insert hi (set (concat (l # rest))))"
      using False by (simp add: Max_insert_max)
    have len: "\<not> length l < 1" using False by (cases l) auto
    show ?thesis
      using False mn mx len
      by (simp add: py_min_Min py_max_Max Cons.IH)
  qed
qed

text \<open>
  C10 (minimum seeded with 0): on every non-empty run list the statistics panel shows,
  as minimum energy, the least of 0 and all samples of all runs; it is never positive,
  and with at least one sample it is \<open>min 0\<close> of the least sample.
\<close>

theorem displayed_minimum_seeded_zero:
  "ls \<noteq> [] \<Longrightarrow>
   (\<exists>mean' var'. draw_stats (Some ls) =
      Inr (Stats (int (length ls) - 1) (Min (insert 0 (set (concat ls)))) mean' var'))
   \<and> Min (insert 0 (set (concat ls))) \<le> 0
   \<and> (concat ls \<noteq> [] \<longrightarrow>
        Min (insert 0 (set (concat ls))) = min 0 (Min (set (concat ls))))"
  by (simp add: draw_stats_eq)

theorem displayed_minimum_seeded_zero_witness:
  "[[2, 3 :: real]] \<noteq> [] \<and>
   draw_stats (Some [[2, 3]]) =
     Inr (Stats 0 0 (Text ''Insufficent data'') (Text ''Insufficent data''))"
  using displayed_minimum_seeded_zero [of "[[2, 3]]"]
  by (simp add: draw_stats_def)

text \<open>
  C2 (global minimum) at the run list \<open>[[1.0]]\<close>, which the tailer builds from the one
  line \<^verbatim>\<open>{"energy": 1.0}\<close>: the panel shows 0 as the minimum energy seen, while the
  least sample is 1.
\<close>

theorem minimum_energy_seen_positive_samples:
  \<open>run_loop sample_literal_eval [linked_line (''{"energy": 1.0}'' @ [CHR 0x0A])] opened 0 =
     Polling (opened\<lparr>logs := Some [[PNum 1.0]]\<rparr>) 0 \<and>
   draw_stats (Some [[1.0]]) =
     Inr (Stats 0 0 (Text ''Insufficent data'') (Text ''Insufficent data'')) \<and>
   Min (set (concat [[1.0 :: real]])) = 1\<close>
  by (simp add: draw_stats_def opened_def linked_line_def sample_literal_eval_def
      startswith_def run_iteration_def handle_line_def)

text \<open>
  C3 (statistics) at the run list \<open>[[-1.0, -1.5], [-0.9]]\<close>, with one finished run:
  mean and variance are reported as the string \<^verbatim>\<open>Insufficent data\<close>, which is not the
  string \<^verbatim>\<open>Insufficient data\<close>.
\<close>

theorem insufficient_data_literal:
  "draw_stats (Some [[- 1.0, - 1.5], [- 0.9]]) =
     Inr (Stats 1 (- 1.5) (Text ''Insufficent data'') (Text ''Insufficent data'')) \<and>
   Text ''Insufficent data'' \<noteq> Text ''Insufficient data''"
  by (simp add: draw_stats_def)

text \<open>
  The rest of the statistics holds on every non-empty run list: the count is the length of the run
  list minus one, and with at least two finished runs that have samples the mean and the
  standard deviation shown are the arithmetic mean and the population standard deviation
  of their minima.
\<close>

lemma draw_stats_statistics:
  assumes "ls \<noteq> []" and "length (finished_minima ls) \<ge> 2"
  shows "draw_stats (Some ls) =
     Inr (Stats (int (length ls) - 1) (Min (insert 0 (set (concat ls))))
       (Computed (sum_list (finished_minima ls) / real (length (finished_minima ls))))
       (Computed (sqrt (sum_list (map (\<lambda>x. (x - sum_list (finished_minima ls) /
            real (length (finished_minima ls)))\<^sup>2) (finished_minima ls)) /
            real (length (finished_minima ls))))))"
  using assms by (simp add: draw_stats_eq np_mean_def np_std_def)

text \<open>
  C8 (chart y-axis range), as the code has it: the bounds start from -1.7 and -1.6 on
  every draw and are only widened by the samples. On every non-empty run list the lower
  bound is the least of -1.7 and all samples and the upper bound the greatest of -1.6 and
  all samples; they are the default range when there is no sample, and the least and
  greatest sample when these reach beyond -1.7 and -1.6.
\<close>

theorem chart_y_range:
  assumes "ls \<noteq> []"
  shows "(\<exists>plots. draw_graphs r (Some ls) =
      Inr (Some (plots, Min (insert (- 1.7) (set (concat ls))),
                        Max (insert (- 1.6) (set (concat ls))))))
   \<and> (concat ls = [] \<longrightarrow>
        Min (insert (- 1.7) (set (concat ls))) = - 1.7 \<and>
        Max (insert (- 1.6) (set (concat ls))) = - 1.6)
   \<and> (concat ls \<noteq> [] \<longrightarrow>
        Min (insert (- 1.7) (set (concat ls))) = min (- 1.7) (Min (set (concat ls))) \<and>
        Max (insert (- 1.6) (set (concat ls))) = max (- 1.6) (Max (set (concat ls))))"
proof -
  define S where "S = set (concat ls)"
  have fin: "finite S" by (simp add: S_def)
  have drawn: "\<exists>plots. draw_graphs r (Some ls) =
      Inr (Some (plots, Min (insert (- 1.7) S), Max (insert (- 1.6) S)))"
    using assms by (simp add: draw_graphs_def graphs_loop_eq S_def)
  have none: "concat ls = [] \<longrightarrow>
        Min (insert (- 1.7) S) = - 1.7 \<and> Max (insert (- 1.6) S) = - 1.6"
  proof
    assume "concat ls = []"
    then have "S = {}" unfolding S_def by (simp only: list.set)
    then show "Min (insert (- 1.7) S) = - 1.7 \<and> Max (insert (- 1.6) S) = - 1.6"
      by simp
  qed
  have some: "concat ls \<noteq> [] \<longrightarrow>
        Min (insert (- 1.7) S) = min (- 1.7) (Min S) \<and>
        Max (insert (- 1.6) S) = max (- 1.6) (Max S)"
  proof
    assume "concat ls \<noteq> []"
    then have "S \<noteq> {}" unfolding S_def by (simp only: set_empty not_False_eq_True)
    then show "Min (insert (- 1.7) S) = min (- 1.7) (Min S) \<and>
        Max (insert (- 1.6) S) = max (- 1.6) (Max S)"
      using fin by simp
  qed
  from drawn none some show ?thesis unfolding S_def by blast
qed

theorem chart_y_range_witness:
  "[[- 1.8, - 1.5 :: real]] \<noteq> [] \<and>
   draw_graphs CURSESDisplay_init (Some [[- 1.8, - 1.5]]) =
     Inr (Some ([([0, 1], [- 1.8, - 1.5], ''_,'')], - 1.8, - 1.5))"
  using chart_y_range [of "[[- 1.8, - 1.5]]" CURSESDisplay_init]
  by (simp add: draw_graphs_def getmarker_def CURSESDisplay_init_def upt_rec)

text \<open>
  The claim as written fails on the run list \<open>[[-1.0, -1.5], [-0.9]]\<close>: the lower bound
  handed to \<^verbatim>\<open>ylim\<close> is -1.7, while the least sample is -1.5.
\<close>

theorem chart_y_range_counterexample:
  "draw_graphs CURSESDisplay_init (Some [[- 1.0, - 1.5], [- 0.9]]) =
     Inr (Some ([([0, 1], [- 1.0, - 1.5], ''0''), ([0], [- 0.9], ''_,'')], - 1.7, - 0.9)) \<and>
   Min (set (concat [[- 1.0, - 1.5], [- 0.9 :: real]])) = - 1.5"
  by (simp add: draw_graphs_def getmarker_def CURSESDisplay_init_def upt_rec str.simps)








section \<open>Properties of the controller\<close>

text \<open>
  C9 (non-interactive startup refusal): when standard input is not a terminal the script
  prints its message and exits with status 1; it does nothing else, so neither worker is
  constructed or started and the path lookup is not made.
\<close>

theorem noninteractive_refusal:
  "\<not> stdin_isatty \<Longrightarrow>
   script stdin_isatty argv get_fname = Inr [Print ''please run interactively.'', SysExit 1]"
  by (simp add: script_def)

theorem noninteractive_refusal_witness:
  "\<not> False \<and>
   script False [''visualize_convergence.py''] (Inl KeyError) =
     Inr [Print ''please run interactively.'', SysExit 1]"
  using noninteractive_refusal [of False "[''visualize_convergence.py'']" "Inl KeyError"]
  by simp

end
